theory Spec2Isabelle
  imports Complex_Main "HOL-Library.Multiset"
begin

section \<open>Lattice-dynamics firetasks of atomate (vasp/firetasks/lattice\_dynamics.py)\<close>

text \<open>
  Each firetask is a function from its inputs (the firework spec, the task's own
  parameters and the results of the external libraries it calls) to the list of effects
  it performs on the working directory, in order, and its outcome: \<open>Inl\<close> of the
  exception it raises or \<open>Inr\<close> of its result. Effects performed before an exception
  stay in the list, as files written before a raise stay on disk.

  The libraries the tasks call (hiPhive, phonopy, pymatgen, the VASP drone, numpy's file
  readers, the ShengBTE binary) are parameters of the model: functions or values the
  theorems quantify over.
\<close>

subsection \<open>Exceptions and effects\<close>

text \<open>
  \<open>RuntimeError\<close> carries which of the file's four messages it was raised with; the
  ShengBTE message embeds the working directory.
\<close>

datatype message =
    No_perturbed_tasks
  | No_force_constant_solution
  | ShengBTE_failed string
  | No_ShengBTE_output

datatype error =
    RuntimeError message
  | ValueError
  | KeyError
  | IndexError
  | TypeError
  | NameError
  | UnboundLocalError

text \<open>
  One constructor per kind of call that touches the working directory or starts a
  process: \<open>dumpfn(obj, name)\<close>, \<open>fcs.write(name)\<close>, \<open>np.savetxt(name, param)\<close>,
  \<open>cs.write(name)\<close>, \<open>fcs.write_to_shengBTE(name, ...)\<close>, \<open>fcs.write_to_phonopy(name, ...)\<close>,
  \<open>control.to_file()\<close> (which writes CONTROL), \<open>open(name, "w")\<close> and \<open>subprocess.call(cmd)\<close>.
  \<open>'c\<close> is what is written.
\<close>

datatype 'c effect =
    Dumpfn 'c string
  | FcsWrite 'c string
  | Savetxt 'c string
  | CsWrite 'c string
  | WriteToShengBTE 'c string
  | WriteToPhonopy 'c string
  | ControlToFile 'c
  | OpenW string
  | SubprocessCall "string list"

text \<open>The file an effect creates or overwrites, if any.\<close>

fun written :: "'c effect \<Rightarrow> string option" where
  "written (Dumpfn c f) = Some f"
| "written (FcsWrite c f) = Some f"
| "written (Savetxt c f) = Some f"
| "written (CsWrite c f) = Some f"
| "written (WriteToShengBTE c f) = Some f"
| "written (WriteToPhonopy c f) = Some f"
| "written (ControlToFile c) = Some ''CONTROL''"
| "written (OpenW f) = Some f"
| "written (SubprocessCall cmd) = None"

definition files_written :: "'c effect list \<Rightarrow> string list" where
  "files_written es = List.map_filter written es"

subsection \<open>Python's substring test\<close>

text \<open>\<open>sub in s\<close> for strings: \<open>sub\<close> occurs in \<open>s\<close> as a contiguous run.\<close>

fun str_in :: "string \<Rightarrow> string \<Rightarrow> bool" where
  "str_in sub [] = (sub = [])"
| "str_in sub (c # cs) = (take (length sub) (c # cs) = sub \<or> str_in sub cs)"

subsection \<open>CollectPerturbedStructures\<close>

text \<open>
  The entries of \<open>fw_spec["perturbed_tasks"]\<close> and \<open>fw_spec["calc_locs"]\<close>; a key that is
  absent from the firework spec is \<open>None\<close>, and \<open>fw_spec.get(key, [])\<close> reads it as \<open>[]\<close>.
\<close>

record ('s, 'm, 'f) perturbed_task =
  parent_structure :: 's
  supercell_matrix :: 'm
  pstructure :: 's
  forces :: 'f

record calc_loc =
  name :: string
  path :: string

record ('s, 'm, 'f) fw_spec =
  perturbed_tasks :: "('s, 'm, 'f) perturbed_task list option"
  calc_locs :: "calc_loc list option"

text \<open>The dictionary written to structure\_data.json, and the three things the task dumps.\<close>

record ('s, 'm) structure_data =
  sd_structure :: 's
  sd_supercell_structure :: 's
  sd_supercell_matrix :: 'm

datatype ('s, 'm, 'f) collected =
    Structures "'s list"
  | Forces "'f list"
  | StructureData "('s, 'm) structure_data"

definition spec_get :: "'a list option \<Rightarrow> 'a list" where
  "spec_get v = (case v of None \<Rightarrow> [] | Some xs \<Rightarrow> xs)"

text \<open>
  \<open>assimilate loc\<close> is the structure the VASP drone parses out of the directory \<open>loc\<close>
  (\<open>opt_doc["calcs_reversed"][0]["output"]["structure"]\<close>), and \<open>apply_transformation m s\<close>
  is \<open>SupercellTransformation(m).apply_transformation(s)\<close>.
\<close>

definition collect_run_task ::
  "(string \<Rightarrow> 's) \<Rightarrow> ('m \<Rightarrow> 's \<Rightarrow> 's) \<Rightarrow> ('s, 'm, 'f) fw_spec
     \<Rightarrow> ('s, 'm, 'f) collected effect list \<times> (error + unit)" where
  "collect_run_task assimilate apply_transformation spec =
     (case spec_get (perturbed_tasks spec) of
        [] \<Rightarrow> ([], Inl (RuntimeError No_perturbed_tasks))
      | r0 # rest \<Rightarrow>
         (let results = r0 # rest;
              structures = map pstructure results;
              forces = map forces results;
              opt_calc_locs = filter (\<lambda>c. str_in ''optimiz'' (name c)) (spec_get (calc_locs spec));
              structure = (if opt_calc_locs \<noteq> [] then assimilate (path (last opt_calc_locs))
                           else parent_structure r0);
              supercell_matrix = supercell_matrix r0;
              supercell_structure = apply_transformation supercell_matrix structure;
              structure_data = \<lparr>sd_structure = structure,
                                sd_supercell_structure = supercell_structure,
                                sd_supercell_matrix = supercell_matrix\<rparr>
          in ([Dumpfn (Structures structures) ''perturbed_structures.json'',
               Dumpfn (Forces forces) ''perturbed_forces.json'',
               Dumpfn (StructureData structure_data) ''structure_data.json''], Inr ())))"

subsection \<open>RunHiPhive\<close>

text \<open>
  The dictionary \<open>renormalization\<close> returns, with the keys the task reads for its
  files: lists under \<open>temperature\<close>, \<open>thermal_expansion\<close>, \<open>fcs\<close> and \<open>param\<close>, a number
  under \<open>n_imaginary\<close> (field \<open>res_k\<close> for key \<open>k\<close>). Temperatures are Python integers.
  The remaining thermal keys are taken to be present and non-empty.
\<close>

record 'o renorm_result =
  res_temperature :: "int list"
  res_thermal_expansion :: "'o list"
  res_fcs :: "'o list"
  res_param :: "'o list"
  res_n_imaginary :: int

text \<open>
  What the fitting and renormalisation tasks write. The objects of hiPhive and numpy
  (force constants, parameter vectors, cluster spaces, the dictionaries of fitting and
  thermal data) are values of one opaque type \<open>'o\<close>. \<open>FittingData d n\<close> is the
  dictionary \<open>d\<close> with its key \<open>n_imaginary\<close> set to \<open>n\<close>; \<open>ThermalData t a\<close> is the
  dictionary \<open>t\<close> (without \<open>n_imaginary\<close>) updated with \<open>a\<close>; \<open>RenormThermalData rs\<close>
  is the dictionary of thermal properties collected from the second-pass results \<open>rs\<close>.
\<close>

datatype 'o artifact =
    FittingData 'o int
  | ThermalData 'o 'o
  | RenormThermalData "'o renorm_result option list"
  | Fcs 'o
  | Param 'o
  | Cs 'o

text \<open>
  \<open>inputs\<close> stands for everything the task loads and reads from its parameters before
  the fit (the three JSON files, the cutoffs, \<open>separate_fit\<close>, \<open>imaginary_tol\<close>,
  \<open>fit_method\<close>, \<open>bulk_modulus\<close>). The three library calls are
  \<^item> \<open>fit_force_constants inputs = (fcs, param, cs, fitting_data)\<close>, with \<open>fcs = None\<close>
    for Python's \<open>None\<close>;
  \<^item> \<open>harmonic_properties inputs fcs = (n, thermal_data)\<close>, where \<open>n\<close> is
    \<open>thermal_data["n_imaginary"]\<close>;
  \<^item> \<open>anharmonic_properties inputs fcs n = anharmonic_data\<close>.

  hiPhive is taken to be importable and the three files to load.
\<close>

definition hiphive_run_task ::
  "('i \<Rightarrow> 'o option \<times> 'o \<times> 'o \<times> 'o) \<Rightarrow> ('i \<Rightarrow> 'o \<Rightarrow> int \<times> 'o) \<Rightarrow> ('i \<Rightarrow> 'o \<Rightarrow> int \<Rightarrow> 'o) \<Rightarrow> 'i
     \<Rightarrow> 'o artifact effect list \<times> (error + unit)" where
  "hiphive_run_task fit_force_constants harmonic_properties anharmonic_properties inputs =
     (case fit_force_constants inputs of (fcs_opt, param, cs, fitting_data) \<Rightarrow>
        (case fcs_opt of
           None \<Rightarrow> ([], Inl (RuntimeError No_force_constant_solution))
         | Some fcs \<Rightarrow>
            (case harmonic_properties inputs fcs of (n_imaginary, thermal_data) \<Rightarrow>
               (let anharmonic_data = anharmonic_properties inputs fcs n_imaginary;
                    written_always =
                      [Dumpfn (FittingData fitting_data n_imaginary) ''fitting_data.json'',
                       Dumpfn (ThermalData thermal_data anharmonic_data) ''thermal_data_qha.json'',
                       FcsWrite (Fcs fcs) ''force_constants.fcs'',
                       Savetxt (Param param) ''parameters.txt'',
                       CsWrite (Cs cs) ''cluster_space.cs'']
                in if n_imaginary = 0
                   then (written_always @
                           [WriteToShengBTE (Fcs fcs) ''FORCE_CONSTANTS_3RD'',
                            WriteToPhonopy (Fcs fcs) ''FORCE_CONSTANTS_2ND''], Inr ())
                   else (written_always, Inr ())))))"

subsection \<open>RunHiPhiveRenorm\<close>

text \<open>Python's \<open>str\<close> of an integer, as \<open>"{}".format(T)\<close> prints it.\<close>

fun digits :: "nat \<Rightarrow> string" where
  "digits n = (if n < 10 then [''0123456789'' ! n]
               else digits (n div 10) @ [''0123456789'' ! (n mod 10)])"

declare digits.simps [simp del]

definition py_str :: "int \<Rightarrow> string" where
  "py_str i = (if i < 0 then ''-'' @ digits (nat (- i)) else digits (nat i))"

text \<open>
  The three statements both direct write-outs consist of:
  \<^verbatim>\<open>
      fcs = result["fcs"][0]
      fcs.write("force_constants_{}K.fcs".format(T))
      np.savetxt('parameters_{}K.txt'.format(T),result["param"][0])
  \<close>
  \<open>T\<close> is a local variable of \<open>run_task\<close> (the function assigns it at line 306), so
  reading it before that assignment raises \<open>UnboundLocalError\<close>; the \<open>T\<close> of the generator
  expressions at lines 265 and 297 lives in their own scopes. The local is passed as
  \<open>None\<close> while unbound. The result is the \<open>fcs\<close> the first statement binds.
\<close>

definition write_fcs_param ::
  "int option \<Rightarrow> 'o renorm_result \<Rightarrow> 'o artifact effect list \<times> (error + 'o)" where
  "write_fcs_param T result =
     (case res_fcs result of
        [] \<Rightarrow> ([], Inl IndexError)
      | fcs # _ \<Rightarrow>
         (case T of
            None \<Rightarrow> ([], Inl UnboundLocalError)
          | Some t \<Rightarrow>
             (let w1 = FcsWrite (Fcs fcs) (''force_constants_'' @ py_str t @ ''K.fcs'') in
              case res_param result of
                [] \<Rightarrow> ([w1], Inl IndexError)
              | p # _ \<Rightarrow>
                 ([w1, Savetxt (Param p) (''parameters_'' @ py_str t @ ''K.txt'')], Inr fcs))))"

text \<open>
  The first loop (lines 273 to 284) over the results of the first pass. The accumulator
  is \<open>(T_real, cte_real, fcs_real, param_real)\<close>; \<open>bulk_modulus\<close> is \<open>None\<close> when the
  parameter is not given.
\<close>

type_synonym 'o real_acc = "int list \<times> 'o list \<times> 'o list \<times> 'o list"

fun first_loop ::
  "'o option \<Rightarrow> int option \<Rightarrow> 'o renorm_result option list \<Rightarrow> 'o real_acc
     \<Rightarrow> 'o artifact effect list \<times> (error + 'o real_acc)" where
  "first_loop bulk_modulus T [] acc = ([], Inr acc)"
| "first_loop bulk_modulus T (None # rest) acc = first_loop bulk_modulus T rest acc"
| "first_loop bulk_modulus T (Some result # rest) (T_real, cte_real, fcs_real, param_real) =
     (if res_n_imaginary result > 0 \<or> bulk_modulus = None
      then (case write_fcs_param T result of
              (es, Inl e) \<Rightarrow> (es, Inl e)
            | (es, Inr fcs) \<Rightarrow>
               (case first_loop bulk_modulus T rest (T_real, cte_real, fcs_real, param_real) of
                  (es', out) \<Rightarrow> (es @ es', out)))
      else first_loop bulk_modulus T rest
             (T_real @ res_temperature result, cte_real @ res_thermal_expansion result,
              fcs_real @ res_fcs result, param_real @ res_param result))"

text \<open>
  The second loop (lines 305 to 318) over the results of the expansion-corrected pass.
  A \<open>None\<close> result fails at \<open>result["temperature"]\<close>.
\<close>

fun second_loop :: "'o renorm_result option list \<Rightarrow> 'o artifact effect list \<times> (error + unit)" where
  "second_loop [] = ([], Inr ())"
| "second_loop (None # rest) = ([], Inl TypeError)"
| "second_loop (Some result # rest) =
     (case res_temperature result of
        [] \<Rightarrow> ([], Inl IndexError)
      | T # _ \<Rightarrow>
         (case write_fcs_param (Some T) result of
            (es, Inl e) \<Rightarrow> (es, Inl e)
          | (es, Inr fcs) \<Rightarrow>
             (let es2 = (if res_n_imaginary result > 0 then []
                         else [WriteToPhonopy (Fcs fcs)
                                 (''FORCE_CONSTANTS_2ND_'' @ py_str T @ ''K'')])
              in case second_loop rest of (es', out) \<Rightarrow> (es @ es2 @ es', out))))"

definition thermal_keys :: "string list" where
  "thermal_keys = [''temperature'', ''free_energy'', ''entropy'', ''heat_capacity'',
                   ''gruneisen'', ''thermal_expansion'', ''expansion_ratio'']"

text \<open>
  \<open>renormalization T\<close> is the first-pass call for temperature \<open>T\<close> (with the structure,
  cluster space, force constants, parameters, \<open>nconfig\<close>, \<open>conv_thresh\<close> and tolerance of
  the task), and \<open>renormalization_TE T_real cte_real t T\<close> the second-pass call for the
  \<open>t\<close>-th sorted temperature \<open>T\<close>, on the structures that \<open>thermal_expansion\<close> and
  \<open>setup_TE_renorm\<close> derive from the accumulated lists.

  The file neither defines nor imports the names \<open>nconfig\<close>, \<open>conv_thresh\<close>,
  \<open>thermal_expansion\<close> and \<open>setup_TE_renorm\<close>. \<open>pass1_names\<close> says whether the first two
  are bound in the module when the task runs, \<open>pass2_names\<close> whether the last two are; in
  the file as it stands both are \<open>False\<close>. An unbound name raises \<open>NameError\<close> where it is
  evaluated: \<open>nconfig\<close> when the generator of line 265 produces its first call, that is
  when \<open>T_renorm\<close> is not empty, and \<open>thermal_expansion\<close> at line 295.

  After the second loop the task pops the key \<open>n_imaginary\<close> from \<open>thermal_data\<close>, whose
  keys are \<open>thermal_keys\<close>: \<open>dict.pop\<close> without a default raises \<open>KeyError\<close> on a
  missing key.
\<close>

definition renorm_run_task ::
  "bool \<Rightarrow> bool \<Rightarrow> (int \<Rightarrow> 'o renorm_result option)
     \<Rightarrow> (int list \<Rightarrow> 'o list \<Rightarrow> nat \<Rightarrow> int \<Rightarrow> 'o renorm_result option)
     \<Rightarrow> 'o option \<Rightarrow> int list \<Rightarrow> 'o artifact effect list \<times> (error + unit)" where
  "renorm_run_task pass1_names pass2_names renormalization renormalization_TE
       bulk_modulus T_renorm =
     (if T_renorm \<noteq> [] \<and> \<not> pass1_names then ([], Inl NameError)
      else
       (let renorm_results = map renormalization T_renorm in
        case first_loop bulk_modulus None renorm_results ([], [], [], []) of
          (es, Inl e) \<Rightarrow> (es, Inl e)
        | (es, Inr (T_real, cte_real, fcs_real, param_real)) \<Rightarrow>
           if length T_real = 0 then (es, Inr ())
           else if length T_real = 1 \<and> T_real ! 0 = 0 then
             (case last renorm_results of
                None \<Rightarrow> (es, Inl TypeError)
              | Some result \<Rightarrow>
                 (case write_fcs_param None result of
                    (es', Inl e) \<Rightarrow> (es @ es', Inl e)
                  | (es', Inr fcs) \<Rightarrow> (es @ es', Inr ())))
           else if \<not> pass2_names then (es, Inl NameError)
           else
             (let T_sorted = sort T_real;
                  renorm_results2 = map (\<lambda>(t, T). renormalization_TE T_real cte_real t T)
                                        (enumerate 0 T_sorted)
              in case second_loop renorm_results2 of
                   (es', Inl e) \<Rightarrow> (es @ es', Inl e)
                 | (es', Inr u) \<Rightarrow>
                    if ''n_imaginary'' \<in> set thermal_keys
                    then (es @ es' @ [Dumpfn (RenormThermalData renorm_results2)
                                        ''thermal_data_renorm.json''], Inr ())
                    else (es @ es', Inl KeyError))))"

subsection \<open>RunShengBTE\<close>

text \<open>
  The \<open>temperature\<close> parameter by the type tests of the task: a number (\<open>int\<close> or
  \<open>float\<close>), a \<open>list\<close> or \<open>np.ndarray\<close> of numbers, a \<open>dict\<close>, or a value of any other
  type. Numbers are exact rationals; rounding of floats is not part of the model.
\<close>

datatype temperature_param =
    Number rat
  | Sequence "rat list"
  | Mapping "string \<rightharpoonup> rat"
  | Other

text \<open>
  The result of numpy's true division: numpy does not raise on a zero divisor, it
  returns \<open>nan\<close> or an infinity (with a warning).
\<close>

datatype npfloat = Fin rat | PosInf | NegInf | NaN

definition np_divide :: "rat \<Rightarrow> int \<Rightarrow> npfloat" where
  "np_divide a b =
     (if b \<noteq> 0 then Fin (a / of_int b)
      else if a = 0 then NaN else if a > 0 then PosInf else NegInf)"

text \<open>\<open>np.max\<close> and \<open>np.min\<close> of a non-empty array.\<close>

definition np_max :: "rat list \<Rightarrow> rat" where
  "np_max ts = fold max (tl ts) (hd ts)"

definition np_min :: "rat list \<Rightarrow> rat" where
  "np_min ts = fold min (tl ts) (hd ts)"

text \<open>
  Lines 522 to 540: the branch on the type of \<open>temperature\<close>, storing the derived values
  in the task's own dictionary \<open>self\<close>. \<open>np.max\<close> of an empty array raises \<open>ValueError\<close>, and
  so does \<open>np.partition(temperature, 1)\<close> when the array has fewer than two elements;
  \<open>np.partition(a, 1)[1]\<close> is the element at index 1 of the sorted array.
\<close>

definition set_temperature ::
  "(string \<rightharpoonup> npfloat) \<Rightarrow> temperature_param \<Rightarrow> error + (string \<rightharpoonup> npfloat)" where
  "set_temperature self temperature =
     (case temperature of
        Number t \<Rightarrow> Inr (self(''t'' \<mapsto> Fin t))
      | Sequence ts \<Rightarrow>
         (if ts = [] then Inl ValueError
          else
            (let t_max = np_max ts; t_min = np_min ts in
             if t_min = 0 then
               (if length ts < 2 then Inl ValueError
                else
                  (let t_min = sort ts ! 1;
                       t_step = np_divide (t_max - t_min) (int (length ts) - 2)
                   in Inr (self(''t_min'' \<mapsto> Fin t_min, ''t_max'' \<mapsto> Fin t_max,
                                ''t_step'' \<mapsto> t_step))))
             else
               (let t_step = np_divide (t_max - t_min) (int (length ts) - 1)
                in Inr (self(''t_min'' \<mapsto> Fin t_min, ''t_max'' \<mapsto> Fin t_max,
                             ''t_step'' \<mapsto> t_step)))))
      | Mapping d \<Rightarrow>
         (case d ''min'' of
            None \<Rightarrow> Inl KeyError
          | Some t_min \<Rightarrow>
             (case d ''max'' of
                None \<Rightarrow> Inl KeyError
              | Some t_max \<Rightarrow>
                 (case d ''step'' of
                    None \<Rightarrow> Inl KeyError
                  | Some t_step \<Rightarrow>
                     Inr (self(''t_min'' \<mapsto> Fin t_min, ''t_max'' \<mapsto> Fin t_max,
                               ''t_step'' \<mapsto> Fin t_step)))))
      | Other \<Rightarrow> Inl ValueError)"

text \<open>The dictionary of a task that holds no derived temperature yet.\<close>

definition new_task :: "string \<rightharpoonup> npfloat" where
  "new_task = Map.empty"

text \<open>
  The second-smallest value of a sequence in the specification's words, for comparison
  with what \<open>np.partition\<close> selects: the least value left once one occurrence of the
  minimum is taken out.
\<close>

definition second_smallest :: "rat list \<Rightarrow> rat" where
  "second_smallest ts = Min (set (remove1 (Min (set ts)) ts))"

text \<open>
  The task. \<open>T_KLAT\<close> is the default of the \<open>temperature\<close> parameter (imported from the
  analysis module), \<open>control\<close> the control object built from the structure and the control
  dictionary, \<open>shengbte_cmd\<close> the command after \<open>env_chk\<close> and \<open>shlex.split\<close>,
  \<open>subprocess_call\<close> the exit code the command returns, \<open>cwd\<close> the working directory.
  \<open>temperature\<close> is \<open>None\<close> when the parameter is not given. Loading
  structure\_data.json and building the control object are taken to succeed; they write
  nothing.
\<close>

definition shengbte_run_task ::
  "temperature_param \<Rightarrow> 'c \<Rightarrow> string list \<Rightarrow> (string list \<Rightarrow> int) \<Rightarrow> string
     \<Rightarrow> (string \<rightharpoonup> npfloat) \<Rightarrow> temperature_param option
     \<Rightarrow> 'c effect list \<times> (error + (string \<rightharpoonup> npfloat))" where
  "shengbte_run_task T_KLAT control shengbte_cmd subprocess_call cwd self temperature =
     (case set_temperature self (case temperature of None \<Rightarrow> T_KLAT | Some t \<Rightarrow> t) of
        Inl e \<Rightarrow> ([], Inl e)
      | Inr self' \<Rightarrow>
         (let es = [ControlToFile control, OpenW ''shengbte.out'', OpenW ''shengbte_err.txt'',
                    SubprocessCall shengbte_cmd];
              return_code = subprocess_call shengbte_cmd
          in if return_code = 1 then (es, Inl (RuntimeError (ShengBTE_failed cwd)))
             else (es, Inr self')))"

subsection \<open>ShengBTEToDb: reading the conductivity table\<close>

text \<open>
  What \<open>np.loadtxt\<close> returns: a one-dimensional array for a file with a single row, a
  two-dimensional array (a list of rows of equal length) otherwise.
\<close>

datatype 'a ndarray = Arr1 "'a list" | Arr2 "'a list list"

fun chunks :: "nat \<Rightarrow> 'a list \<Rightarrow> 'a list list" where
  "chunks n xs = (if n = 0 \<or> xs = [] then [] else take n xs # chunks n (drop n xs))"

declare chunks.simps [simp del]

text \<open>
  \<open>a.reshape(-1, 3, 3)\<close> on the row-major flattening \<open>flat\<close> of \<open>a\<close>: \<open>ValueError\<close> unless
  the number of elements is a multiple of 9.
\<close>

definition reshape_m1_3_3 :: "'a list \<Rightarrow> error + 'a list list list" where
  "reshape_m1_3_3 flat =
     (if length flat mod 9 \<noteq> 0 then Inl ValueError
      else Inr (map (chunks 3) (chunks 9 flat)))"

text \<open>
  Lines 616 to 622. \<open>bte_data[:, 0]\<close> raises \<open>IndexError\<close> on an array without columns;
  \<open>bte_data[:, 1:10]\<close> keeps of each row the elements at indices 1 to 9 that exist.
\<close>

definition parse_bte_data :: "'a ndarray \<Rightarrow> error + ('a list \<times> 'a list list list)" where
  "parse_bte_data loaded =
     (let bte_data = (case loaded of Arr1 row \<Rightarrow> [row] | Arr2 rows \<Rightarrow> rows) in
      if [] \<in> set bte_data then Inl IndexError
      else
        (let temperatures = map (\<lambda>row. row ! 0) bte_data in
         case reshape_m1_3_3 (concat (map (\<lambda>row. take 9 (drop 1 row)) bte_data)) of
           Inl e \<Rightarrow> Inl e
         | Inr kappa \<Rightarrow> Inr (temperatures, kappa)))"

subsection \<open>The fitting-id counter\<close>

text \<open>
  The \<open>counter\<close> collection maps the \<open>_id\<close> of a document to the value of its field \<open>c\<close>.
  \<open>find_one_and_update\<close> with \<open>{"$inc": {"c": 1}}\<close> and \<open>ReturnDocument.AFTER\<close> is one
  database operation: it increments the document and returns it, or returns \<open>None\<close> and
  changes nothing when there is no such document (the call does not upsert). \<open>insert\<close>
  is one operation too, and fails on an \<open>_id\<close> that exists.
\<close>

type_synonym collection = "string \<rightharpoonup> int"

datatype db_error = DuplicateKeyError

definition find_one_and_update :: "collection \<Rightarrow> string \<Rightarrow> int option \<times> collection" where
  "find_one_and_update coll i =
     (case coll i of None \<Rightarrow> (None, coll) | Some c \<Rightarrow> (Some (c + 1), coll(i \<mapsto> c + 1)))"

definition insert_doc :: "collection \<Rightarrow> string \<Rightarrow> int \<Rightarrow> db_error + collection" where
  "insert_doc coll i c =
     (case coll i of None \<Rightarrow> Inr (coll(i \<mapsto> c)) | Some _ \<Rightarrow> Inl DuplicateKeyError)"

definition get_fc_fitting_id :: "collection \<Rightarrow> collection \<times> (db_error + int)" where
  "get_fc_fitting_id counter =
     (case find_one_and_update counter ''fc_fitting_id'' of
        (None, counter') \<Rightarrow>
          (case insert_doc counter' ''fc_fitting_id'' 1 of
             Inl e \<Rightarrow> (counter', Inl e)
           | Inr counter'' \<Rightarrow> (counter'', Inr 1))
      | (Some c, counter') \<Rightarrow> (counter', Inr c))"

text \<open>A sequence of \<open>n\<close> allocations, one after the other, against the same collection.\<close>

fun allocations :: "nat \<Rightarrow> collection \<Rightarrow> (db_error + int) list \<times> collection" where
  "allocations 0 counter = ([], counter)"
| "allocations (Suc n) counter =
     (case get_fc_fitting_id counter of
        (counter', r) \<Rightarrow> (case allocations n counter' of (rs, counter'') \<Rightarrow> (r # rs, counter'')))"

text \<open>
  Concurrent allocations: each caller runs \<open>_get_fc_fitting_id\<close> one database operation
  at a time, and the operations of different callers interleave in any order. A caller
  is at its start, between a \<open>find_one_and_update\<close> that returned \<open>None\<close> and its
  \<open>insert\<close>, or finished with an id or an exception. A schedule names the caller that
  performs its next operation.
\<close>

datatype caller = Start | Found_none | Returned int | Raised db_error

fun caller_step :: "collection \<Rightarrow> caller \<Rightarrow> collection \<times> caller" where
  "caller_step counter Start =
     (case find_one_and_update counter ''fc_fitting_id'' of
        (None, counter') \<Rightarrow> (counter', Found_none)
      | (Some c, counter') \<Rightarrow> (counter', Returned c))"
| "caller_step counter Found_none =
     (case insert_doc counter ''fc_fitting_id'' 1 of
        Inl e \<Rightarrow> (counter, Raised e)
      | Inr counter' \<Rightarrow> (counter', Returned 1))"
| "caller_step counter (Returned i) = (counter, Returned i)"
| "caller_step counter (Raised e) = (counter, Raised e)"

fun run_schedule :: "nat list \<Rightarrow> collection \<times> caller list \<Rightarrow> collection \<times> caller list" where
  "run_schedule [] s = s"
| "run_schedule (p # sched) (counter, callers) =
     (if p < length callers
      then (case caller_step counter (callers ! p) of
              (counter', c') \<Rightarrow> run_schedule sched (counter', callers[p := c']))
      else run_schedule sched (counter, callers))"

text \<open>
  The invariant of the interleaved callers: an id that has been returned is at most the
  counter's value, which exists, and no two callers hold the same returned id.
\<close>

definition ids_bounded :: "collection \<times> caller list \<Rightarrow> bool" where
  "ids_bounded s \<longleftrightarrow>
     (\<forall>p i. p < length (snd s) \<and> snd s ! p = Returned i
        \<longrightarrow> (\<exists>c. fst s ''fc_fitting_id'' = Some c \<and> i \<le> c))"

definition ids_distinct :: "collection \<times> caller list \<Rightarrow> bool" where
  "ids_distinct s \<longleftrightarrow>
     (\<forall>p q i j. p < length (snd s) \<and> q < length (snd s) \<and> p \<noteq> q \<and>
        snd s ! p = Returned i \<and> snd s ! q = Returned j \<longrightarrow> i \<noteq> j)"

section \<open>Properties\<close>

subsection \<open>CollectPerturbedStructures\<close>

text \<open>
  C9. With an empty sequence of perturbed samples (the key absent from the firework spec,
  or an empty list under it) the task raises its \<open>RuntimeError\<close> "No perturbed tasks found
  in firework spec" and performs no effect: no file is written.
\<close>

theorem collect_empty_input:
  "spec_get (perturbed_tasks spec) = [] \<Longrightarrow>
     collect_run_task assimilate apply_transformation spec
       = ([], Inl (RuntimeError No_perturbed_tasks))"
  by (simp add: collect_run_task_def)

theorem collect_empty_input_witness:
  "spec_get (perturbed_tasks (\<lparr>perturbed_tasks = Some [], calc_locs = None\<rparr>
       :: (nat, nat, nat) fw_spec)) = [] \<and>
   collect_run_task (\<lambda>p. (0::nat)) (\<lambda>(m::nat) s. s)
       (\<lparr>perturbed_tasks = Some [], calc_locs = None\<rparr> :: (nat, nat, nat) fw_spec)
     = ([], Inl (RuntimeError No_perturbed_tasks))"
  using collect_empty_input
    [of "\<lparr>perturbed_tasks = Some [], calc_locs = None\<rparr> :: (nat, nat, nat) fw_spec"
        "\<lambda>p. (0::nat)" "\<lambda>(m::nat) s. s"]
  by (simp add: spec_get_def)

subsection \<open>RunHiPhive\<close>

text \<open>
  C2. When \<open>fit_force_constants\<close> returns \<open>None\<close> for the force constants, the task raises
  its \<open>RuntimeError\<close> "Could not find a force constant solution" and performs no effect:
  none of fitting\_data.json, thermal\_data\_qha.json, force\_constants.fcs, parameters.txt,
  cluster\_space.cs (nor any other file) is written.
\<close>

theorem hiphive_null_fit:
  assumes "fst (fit_force_constants inputs) = None"
  shows "hiphive_run_task fit_force_constants harmonic_properties anharmonic_properties inputs
           = ([], Inl (RuntimeError No_force_constant_solution))"
proof (cases "fit_force_constants inputs")
  case (fields fcs_opt param cs fitting_data)
  with assms have "fcs_opt = None" by simp
  with fields show ?thesis by (simp add: hiphive_run_task_def)
qed

theorem hiphive_null_fit_witness:
  "fst ((\<lambda>i. (None, 1, 2, 3)) (0::nat)) = (None :: nat option) \<and>
   hiphive_run_task (\<lambda>i::nat. (None :: nat option, 1::nat, 2::nat, 3::nat))
       (\<lambda>i f. (0, 4)) (\<lambda>i f n. 5) 0
     = ([], Inl (RuntimeError No_force_constant_solution))"
  using hiphive_null_fit
    [of "\<lambda>i::nat. (None :: nat option, 1::nat, 2::nat, 3::nat)" 0 "\<lambda>i f. (0, 4)" "\<lambda>i f n. 5"]
  by simp

text \<open>
  C1. When the fit returns force constants, the task completes without an exception and
  dumps the fitting data with the imaginary-mode count \<open>n\<close> that \<open>harmonic_properties\<close>
  reports. If \<open>n = 0\<close>, it writes FORCE\_CONSTANTS\_3RD with \<open>write_to_shengBTE\<close> and
  FORCE\_CONSTANTS\_2ND with \<open>write_to_phonopy\<close>; if \<open>n \<noteq> 0\<close>, it writes neither file.
\<close>

theorem hiphive_conditional_export:
  assumes "fit_force_constants inputs = (Some fcs, param, cs, fitting_data)"
  shows "\<exists>es. hiphive_run_task fit_force_constants harmonic_properties anharmonic_properties inputs
               = (es, Inr ()) \<and>
          Dumpfn (FittingData fitting_data (fst (harmonic_properties inputs fcs)))
              ''fitting_data.json'' \<in> set es \<and>
          (fst (harmonic_properties inputs fcs) = 0 \<longrightarrow>
             WriteToShengBTE (Fcs fcs) ''FORCE_CONSTANTS_3RD'' \<in> set es \<and>
             WriteToPhonopy (Fcs fcs) ''FORCE_CONSTANTS_2ND'' \<in> set es) \<and>
          (fst (harmonic_properties inputs fcs) \<noteq> 0 \<longrightarrow>
             ''FORCE_CONSTANTS_3RD'' \<notin> set (files_written es) \<and>
             ''FORCE_CONSTANTS_2ND'' \<notin> set (files_written es))"
proof (cases "harmonic_properties inputs fcs")
  case (Pair n thermal_data)
  show ?thesis
  proof (cases "n = 0")
    case True
    with assms Pair show ?thesis
      by (simp add: hiphive_run_task_def)
  next
    case False
    with assms Pair show ?thesis
      by (simp add: hiphive_run_task_def files_written_def List.map_filter_simps)
  qed
qed

theorem hiphive_conditional_export_witness:
  "(\<exists>es. hiphive_run_task (\<lambda>i::nat. (Some (7::nat), 1, 2, 3)) (\<lambda>i f. (0, 8)) (\<lambda>i f n. 9) 0
            = (es, Inr ()) \<and>
         WriteToShengBTE (Fcs 7) ''FORCE_CONSTANTS_3RD'' \<in> set es \<and>
         WriteToPhonopy (Fcs 7) ''FORCE_CONSTANTS_2ND'' \<in> set es) \<and>
   (\<exists>es. hiphive_run_task (\<lambda>i::nat. (Some (7::nat), 1, 2, 3)) (\<lambda>i f. (4, 8)) (\<lambda>i f n. 9) 0
            = (es, Inr ()) \<and>
         ''FORCE_CONSTANTS_3RD'' \<notin> set (files_written es) \<and>
         ''FORCE_CONSTANTS_2ND'' \<notin> set (files_written es))"
proof -
  have h: "(\<lambda>i::nat. (Some (7::nat), 1::nat, 2::nat, 3::nat)) 0 = (Some 7, 1, 2, 3)" by simp
  have z: "fst ((\<lambda>(i::nat) (f::nat). (0::int, 8::nat)) 0 7) = 0" by simp
  have n: "fst ((\<lambda>(i::nat) (f::nat). (4::int, 8::nat)) 0 7) \<noteq> 0" by simp
  from hiphive_conditional_export
    [of "\<lambda>i::nat. (Some (7::nat), 1::nat, 2::nat, 3::nat)" 0 7 1 2 3
        "\<lambda>(i::nat) (f::nat). (0::int, 8::nat)" "\<lambda>i f n. 9", OF h] z
  have a: "\<exists>es. hiphive_run_task (\<lambda>i::nat. (Some (7::nat), 1, 2, 3)) (\<lambda>i f. (0, 8)) (\<lambda>i f n. 9) 0
            = (es, Inr ()) \<and>
         WriteToShengBTE (Fcs 7) ''FORCE_CONSTANTS_3RD'' \<in> set es \<and>
         WriteToPhonopy (Fcs 7) ''FORCE_CONSTANTS_2ND'' \<in> set es"
    by blast
  from hiphive_conditional_export
    [of "\<lambda>i::nat. (Some (7::nat), 1::nat, 2::nat, 3::nat)" 0 7 1 2 3
        "\<lambda>(i::nat) (f::nat). (4::int, 8::nat)" "\<lambda>i f n. 9", OF h] n
  have b: "\<exists>es. hiphive_run_task (\<lambda>i::nat. (Some (7::nat), 1, 2, 3)) (\<lambda>i f. (4, 8)) (\<lambda>i f n. 9) 0
            = (es, Inr ()) \<and>
         ''FORCE_CONSTANTS_3RD'' \<notin> set (files_written es) \<and>
         ''FORCE_CONSTANTS_2ND'' \<notin> set (files_written es)"
    by blast
  from a b show ?thesis by (rule conjI)
qed

subsection \<open>RunHiPhiveRenorm\<close>

text \<open>
  In the expansion-corrected pass, reached when all four names are bound, each record's
  files carry the temperature of the record itself (line 306 binds \<open>T\<close> to it). The task
  then ends in \<open>KeyError\<close>, at the pop of \<open>n_imaginary\<close>, with thermal\_data\_renorm.json
  not written.
\<close>

lemma renorm_second_pass_example:
  "renorm_run_task True True
     (\<lambda>T. Some \<lparr>res_temperature = [T], res_thermal_expansion = [0::nat], res_fcs = [1],
                 res_param = [2], res_n_imaginary = 0\<rparr>)
     (\<lambda>T_real cte_real t T.
         Some \<lparr>res_temperature = [T], res_thermal_expansion = [0], res_fcs = [3],
                res_param = [4], res_n_imaginary = 0\<rparr>)
     (Some 5) [300, 100]
   = ([FcsWrite (Fcs 3) ''force_constants_100K.fcs'',
       Savetxt (Param 4) ''parameters_100K.txt'',
       WriteToPhonopy (Fcs 3) ''FORCE_CONSTANTS_2ND_100K'',
       FcsWrite (Fcs 3) ''force_constants_300K.fcs'',
       Savetxt (Param 4) ''parameters_300K.txt'',
       WriteToPhonopy (Fcs 3) ''FORCE_CONSTANTS_2ND_300K''], Inl KeyError)"
  by (simp add: renorm_run_task_def write_fcs_param_def thermal_keys_def py_str_def
      digits.simps enumerate_eq_zip upt_rec)

text \<open>
  The degenerate case of a single record at 0 K, with a bulk modulus, fails in the same
  way as the direct write-out of the first loop.
\<close>

lemma renorm_single_zero_unbound:
  "renorm_run_task pass1_names pass2_names
     (\<lambda>T. Some \<lparr>res_temperature = [T], res_thermal_expansion = [0::nat], res_fcs = [1],
                 res_param = [2], res_n_imaginary = 0\<rparr>)
     renormalization_TE (Some 5) [0]
   = ([], Inl (if pass1_names then UnboundLocalError else NameError))"
  by (simp add: renorm_run_task_def write_fcs_param_def)

text \<open>
  C3 (not what the code does). The specification has every record that is written out,
  directly or after the second pass, named by its own temperature. A single requested
  temperature of 300 K without a bulk modulus, for which \<open>renormalization\<close> returns a
  record at 300 K with no imaginary mode, takes the direct write-out of the first loop:
  force\_constants\_300K.fcs and parameters\_300K.txt are to be written. The task writes
  nothing: with \<open>nconfig\<close> and \<open>conv_thresh\<close> bound it raises \<open>UnboundLocalError\<close> on the
  unbound local \<open>T\<close>, and in the file as it stands it raises \<open>NameError\<close> before that.
\<close>

theorem renorm_direct_write_unbound:
  "renorm_run_task pass1_names pass2_names
     (\<lambda>T. Some \<lparr>res_temperature = [T], res_thermal_expansion = [0::nat], res_fcs = [1],
                 res_param = [2], res_n_imaginary = 0\<rparr>)
     renormalization_TE None [300]
   = ([], Inl (if pass1_names then UnboundLocalError else NameError))"
  by (simp add: renorm_run_task_def write_fcs_param_def)

subsection \<open>RunShengBTE\<close>

text \<open>
  C10. A \<open>temperature\<close> parameter that is neither a number, nor a list or array, nor a
  dictionary makes the task raise \<open>ValueError\<close> with no effect performed: CONTROL is not
  written and the solver is not started.
\<close>

theorem shengbte_unsupported_temperature:
  "shengbte_run_task T_KLAT control shengbte_cmd subprocess_call cwd self (Some Other)
     = ([], Inl ValueError)"
  by (simp add: shengbte_run_task_def set_temperature_def)



text \<open>numpy's division, reductions and selection agree with the mathematical ones.\<close>

lemma np_divide_nonzero: "b \<noteq> 0 \<Longrightarrow> np_divide a b = Fin (a / of_int b)"
  by (simp add: np_divide_def)

lemma np_max_eq_Max:
  assumes "ts \<noteq> []"
  shows "np_max ts = Max (set ts)"
proof (cases ts)
  case Nil
  with assms show ?thesis by simp
next
  case (Cons a list)
  then show ?thesis using Max.set_eq_fold [of a list] by (simp add: np_max_def)
qed

lemma np_min_eq_Min:
  assumes "ts \<noteq> []"
  shows "np_min ts = Min (set ts)"
proof (cases ts)
  case Nil
  with assms show ?thesis by simp
next
  case (Cons a list)
  then show ?thesis using Min.set_eq_fold [of a list] by (simp add: np_min_def)
qed

lemma sort_Min_remove1:
  fixes ts :: "rat list"
  assumes "ts \<noteq> []"
  shows "sort ts = Min (set ts) # sort (remove1 (Min (set ts)) ts)"
proof (rule properties_for_sort)
  have m: "Min (set ts) \<in> set ts" using assms by simp
  show "mset (Min (set ts) # sort (remove1 (Min (set ts)) ts)) = mset ts"
    using m by simp
  have "\<forall>y \<in> set (remove1 (Min (set ts)) ts). Min (set ts) \<le> y"
    by (meson List.finite_set Min_le notin_set_remove1)
  then show "sorted (Min (set ts) # sort (remove1 (Min (set ts)) ts))"
    by simp
qed

lemma hd_sort_Min:
  fixes xs :: "rat list"
  assumes "xs \<noteq> []"
  shows "sort xs ! 0 = Min (set xs)"
  using sort_Min_remove1 [OF assms] by simp

lemma partition_second_smallest:
  fixes ts :: "rat list"
  assumes "2 \<le> length ts"
  shows "sort ts ! 1 = second_smallest ts"
proof -
  from assms have ne: "ts \<noteq> []" by auto
  have m: "Min (set ts) \<in> set ts" using ne by simp
  have "length (remove1 (Min (set ts)) ts) = length ts - 1"
    using m by (simp add: length_remove1)
  with assms have ne': "remove1 (Min (set ts)) ts \<noteq> []" by auto
  have "sort ts ! 1 = sort (remove1 (Min (set ts)) ts) ! 0"
    using sort_Min_remove1 [OF ne] by simp
  also have "\<dots> = Min (set (remove1 (Min (set ts)) ts))"
    by (rule hd_sort_Min [OF ne'])
  finally show ?thesis by (simp add: second_smallest_def)
qed

text \<open>
  C5 (amended). For every non-empty temperature sequence that has at least two elements
  when its minimum is zero, the task stores \<open>t_max\<close> = the maximum of the sequence and: if
  the minimum is zero, \<open>t_min\<close> = the second-smallest value and
  \<open>t_step = (t_max - t_min) / (length - 2)\<close>; otherwise \<open>t_min\<close> = the minimum and
  \<open>t_step = (t_max - t_min) / (length - 1)\<close>, the division being numpy's. The witness is
  the example of the specification: \<open>[0, 100, 200, 300]\<close> gives \<open>t_min = 100\<close>, \<open>t_max = 300\<close>,
  \<open>t_step = 100\<close>.
\<close>

theorem set_temperature_sequence:
  assumes "ts \<noteq> []" and "Min (set ts) = 0 \<longrightarrow> 2 \<le> length ts"
  shows "\<exists>self'. set_temperature self (Sequence ts) = Inr self' \<and>
           self' ''t_max'' = Some (Fin (Max (set ts))) \<and>
           (Min (set ts) = 0 \<longrightarrow>
              self' ''t_min'' = Some (Fin (second_smallest ts)) \<and>
              self' ''t_step'' = Some (np_divide (Max (set ts) - second_smallest ts) (int (length ts) - 2))) \<and>
           (Min (set ts) \<noteq> 0 \<longrightarrow>
              self' ''t_min'' = Some (Fin (Min (set ts))) \<and>
              self' ''t_step'' = Some (np_divide (Max (set ts) - Min (set ts)) (int (length ts) - 1)))"
proof (cases "Min (set ts) = 0")
  case True
  with assms have len: "2 \<le> length ts" by simp
  then have "\<not> length ts < 2" by simp
  moreover have "sort ts ! Suc 0 = second_smallest ts"
    using partition_second_smallest [OF len] by simp
  ultimately show ?thesis using True assms(1)
    by (simp add: set_temperature_def np_max_eq_Max np_min_eq_Min Let_def)
next
  case False
  with assms(1) show ?thesis
    by (simp add: set_temperature_def np_max_eq_Max np_min_eq_Min Let_def)
qed

theorem set_temperature_sequence_witness:
  "\<exists>self'. set_temperature Map.empty (Sequence [0, 100, 200, 300]) = Inr self' \<and>
      self' ''t_min'' = Some (Fin 100) \<and> self' ''t_max'' = Some (Fin 300) \<and>
      self' ''t_step'' = Some (Fin 100)"
proof -
  have h1: "[0, 100, 200, 300 :: rat] \<noteq> []" by simp
  have h2: "Min (set [0, 100, 200, 300 :: rat]) = 0 \<longrightarrow> 2 \<le> length [0, 100, 200, 300 :: rat]" by simp
  have m: "Min (set [0, 100, 200, 300 :: rat]) = 0" by simp
  have M: "Max (set [0, 100, 200, 300 :: rat]) = 300" by simp
  have s: "second_smallest [0, 100, 200, 300] = 100" by (simp add: second_smallest_def)
  from set_temperature_sequence [OF h1 h2, of Map.empty]
  obtain self' where "set_temperature Map.empty (Sequence [0, 100, 200, 300]) = Inr self'"
    and "self' ''t_max'' = Some (Fin 300)"
    and "self' ''t_min'' = Some (Fin 100)"
    and "self' ''t_step'' = Some (np_divide (300 - 100) (int (length [0, 100, 200, 300 :: rat]) - 2))"
    unfolding m M s by auto
  then show ?thesis by (simp add: np_divide_def)
qed

text \<open>
  C5, for every temperature sequence, fails on the sequence \<open>[0]\<close>: its minimum is zero
  and it has no second-smallest value; \<open>np.partition\<close> raises and no parameter is derived.
\<close>

theorem set_temperature_single_zero:
  "set_temperature new_task (Sequence [0]) = Inl ValueError"
  by (simp add: set_temperature_def np_min_def np_max_def)

subsection \<open>The structure context written by CollectPerturbedStructures\<close>

text \<open>\<open>str_in\<close> is the substring test.\<close>

lemma str_in_iff: "str_in sub s \<longleftrightarrow> (\<exists>pre post. s = pre @ sub @ post)"
proof (induction s)
  case Nil
  show ?case by simp
next
  case (Cons c cs)
  show ?case
  proof
    assume "str_in sub (c # cs)"
    then consider "take (length sub) (c # cs) = sub" | "str_in sub cs" by auto
    then show "\<exists>pre post. c # cs = pre @ sub @ post"
    proof cases
      case 1
      then have "c # cs = [] @ sub @ drop (length sub) (c # cs)"
        by (metis append_Nil append_take_drop_id)
      then show ?thesis by blast
    next
      case 2
      with Cons.IH obtain pre post where "cs = pre @ sub @ post" by blast
      then have "c # cs = (c # pre) @ sub @ post" by simp
      then show ?thesis by blast
    qed
  next
    assume "\<exists>pre post. c # cs = pre @ sub @ post"
    then obtain pre post where eq: "c # cs = pre @ sub @ post" by blast
    show "str_in sub (c # cs)"
    proof (cases pre)
      case Nil
      with eq have "take (length sub) (c # cs) = sub" by simp
      then show ?thesis by simp
    next
      case (Cons a pre')
      with eq have "cs = pre' @ sub @ post" by simp
      with Cons.IH have "str_in sub cs" by blast
      then show ?thesis by simp
    qed
  qed
qed

text \<open>The last element of a filtered list is the element at the last matching index.\<close>

lemma last_filter_nth:
  assumes "i < length xs" and "P (xs ! i)"
    and "\<forall>j. i < j \<and> j < length xs \<longrightarrow> \<not> P (xs ! j)"
  shows "last (filter P xs) = xs ! i"
proof -
  have split: "xs = take i xs @ xs ! i # drop (Suc i) xs"
    using assms(1) by (rule id_take_nth_drop)
  have "\<forall>x \<in> set (drop (Suc i) xs). \<not> P x"
  proof
    fix x assume "x \<in> set (drop (Suc i) xs)"
    then obtain k where k: "k < length (drop (Suc i) xs)" "x = drop (Suc i) xs ! k"
      by (auto simp: in_set_conv_nth)
    then have "x = xs ! (Suc i + k)" and "Suc i + k < length xs" by auto
    with assms(3) show "\<not> P x" by simp
  qed
  then have "filter P (drop (Suc i) xs) = []" by simp
  then have "filter P xs = filter P (take i xs) @ [xs ! i]"
    using assms(2) by (subst split) simp
  then show ?thesis by simp
qed

text \<open>
  C4. For a non-empty sequence of samples the task completes and dumps the perturbed
  structures, the forces and a structure context whose supercell matrix is the first
  sample's, whose parent structure is the structure parsed from the path of the last entry
  of \<open>calc_locs\<close> whose name contains "optimiz" (the entry at an index \<open>i\<close> that matches
  with no matching entry after it), or the first sample's parent structure when no entry
  matches, and whose supercell structure is the supercell transformation of that matrix
  applied to that parent structure.
\<close>

theorem collect_structure_context:
  assumes "spec_get (perturbed_tasks spec) = r0 # rest"
  shows "\<exists>sd. collect_run_task assimilate apply_transformation spec
               = ([Dumpfn (Structures (map pstructure (r0 # rest))) ''perturbed_structures.json'',
                   Dumpfn (Forces (map forces (r0 # rest))) ''perturbed_forces.json'',
                   Dumpfn (StructureData sd) ''structure_data.json''], Inr ()) \<and>
          sd_supercell_matrix sd = supercell_matrix r0 \<and>
          sd_supercell_structure sd = apply_transformation (supercell_matrix r0) (sd_structure sd) \<and>
          (\<forall>i. i < length (spec_get (calc_locs spec)) \<and>
                str_in ''optimiz'' (name (spec_get (calc_locs spec) ! i)) \<and>
                (\<forall>j. i < j \<and> j < length (spec_get (calc_locs spec))
                     \<longrightarrow> \<not> str_in ''optimiz'' (name (spec_get (calc_locs spec) ! j)))
              \<longrightarrow> sd_structure sd = assimilate (path (spec_get (calc_locs spec) ! i))) \<and>
          ((\<forall>c \<in> set (spec_get (calc_locs spec)). \<not> str_in ''optimiz'' (name c))
              \<longrightarrow> sd_structure sd = parent_structure r0)"
proof -
  define locs where "locs = spec_get (calc_locs spec)"
  define P where "P = (\<lambda>c :: calc_loc. str_in ''optimiz'' (name c))"
  define parent where
    "parent = (if filter P locs \<noteq> [] then assimilate (path (last (filter P locs)))
                  else parent_structure r0)"
  define sd where
    "sd = \<lparr>sd_structure = parent,
           sd_supercell_structure = apply_transformation (supercell_matrix r0) parent,
           sd_supercell_matrix = supercell_matrix r0\<rparr>"
  have run: "collect_run_task assimilate apply_transformation spec
               = ([Dumpfn (Structures (map pstructure (r0 # rest))) ''perturbed_structures.json'',
                   Dumpfn (Forces (map forces (r0 # rest))) ''perturbed_forces.json'',
                   Dumpfn (StructureData sd) ''structure_data.json''], Inr ())"
    using assms by (simp add: collect_run_task_def Let_def sd_def parent_def P_def locs_def)
  have last_match: "sd_structure sd = assimilate (path (locs ! i))"
    if "i < length locs" "P (locs ! i)" "\<forall>j. i < j \<and> j < length locs \<longrightarrow> \<not> P (locs ! j)" for i
  proof -
    from that(1,2) have "locs ! i \<in> set (filter P locs)" by simp
    then have "filter P locs \<noteq> []" by (metis empty_iff list.set(1))
    moreover have "last (filter P locs) = locs ! i" using that by (rule last_filter_nth)
    ultimately show ?thesis by (simp add: sd_def parent_def)
  qed
  have no_match: "sd_structure sd = parent_structure r0" if "\<forall>c \<in> set locs. \<not> P c"
  proof -
    from that have "filter P locs = []" by simp
    then show ?thesis by (simp add: sd_def parent_def)
  qed
  have "sd_supercell_matrix sd = supercell_matrix r0"
    and "sd_supercell_structure sd = apply_transformation (supercell_matrix r0) (sd_structure sd)"
    by (simp_all add: sd_def)
  with run last_match no_match show ?thesis
    unfolding locs_def P_def by blast
qed

theorem collect_structure_context_witness:
  "\<exists>sd. collect_run_task (\<lambda>p. ''relaxed at '' @ p) (\<lambda>m s. concat (replicate m s))
           \<lparr>perturbed_tasks = Some [\<lparr>parent_structure = ''Si'', supercell_matrix = 2::nat,
                                    pstructure = ''Si*'', forces = 1::nat\<rparr>],
            calc_locs = Some [\<lparr>name = ''structure optimization'', path = ''/a''\<rparr>,
                              \<lparr>name = ''re-optimize'', path = ''/b''\<rparr>,
                              \<lparr>name = ''static'', path = ''/c''\<rparr>]\<rparr>
         = ([Dumpfn (Structures [''Si*'']) ''perturbed_structures.json'',
             Dumpfn (Forces [1]) ''perturbed_forces.json'',
             Dumpfn (StructureData sd) ''structure_data.json''], Inr ()) \<and>
        sd_supercell_matrix sd = 2 \<and>
        sd_structure sd = ''relaxed at /b''"
proof -
  let ?spec = "\<lparr>perturbed_tasks = Some [\<lparr>parent_structure = ''Si'', supercell_matrix = 2::nat,
                                    pstructure = ''Si*'', forces = 1::nat\<rparr>],
            calc_locs = Some [\<lparr>name = ''structure optimization'', path = ''/a''\<rparr>,
                              \<lparr>name = ''re-optimize'', path = ''/b''\<rparr>,
                              \<lparr>name = ''static'', path = ''/c''\<rparr>]\<rparr>"
  have h: "spec_get (perturbed_tasks ?spec)
             = \<lparr>parent_structure = ''Si'', supercell_matrix = 2::nat,
                pstructure = ''Si*'', forces = 1::nat\<rparr> # []"
    by (simp add: spec_get_def)
  have locs: "spec_get (calc_locs ?spec) = [\<lparr>name = ''structure optimization'', path = ''/a''\<rparr>,
                              \<lparr>name = ''re-optimize'', path = ''/b''\<rparr>,
                              \<lparr>name = ''static'', path = ''/c''\<rparr>]"
    by (simp add: spec_get_def)
  have m: "(1::nat) < length (spec_get (calc_locs ?spec)) \<and>
        str_in ''optimiz'' (name (spec_get (calc_locs ?spec) ! 1)) \<and>
        (\<forall>j. 1 < j \<and> j < length (spec_get (calc_locs ?spec))
             \<longrightarrow> \<not> str_in ''optimiz'' (name (spec_get (calc_locs ?spec) ! j)))"
  proof (intro conjI allI impI)
    show "1 < length (spec_get (calc_locs ?spec))" unfolding locs by simp
    show "str_in ''optimiz'' (name (spec_get (calc_locs ?spec) ! 1))" unfolding locs by simp
    fix j assume "1 < j \<and> j < length (spec_get (calc_locs ?spec))"
    then have "j = 2" unfolding locs by simp
    then show "\<not> str_in ''optimiz'' (name (spec_get (calc_locs ?spec) ! j))"
      unfolding locs by simp
  qed
  from collect_structure_context [OF h, of "\<lambda>p. ''relaxed at '' @ p" "\<lambda>m s. concat (replicate m s)"]
  obtain sd where sd: "collect_run_task (\<lambda>p. ''relaxed at '' @ p) (\<lambda>m s. concat (replicate m s)) ?spec
               = ([Dumpfn (Structures (map pstructure [\<lparr>parent_structure = ''Si'', supercell_matrix = 2::nat,
                pstructure = ''Si*'', forces = 1::nat\<rparr>])) ''perturbed_structures.json'',
                   Dumpfn (Forces (map forces [\<lparr>parent_structure = ''Si'', supercell_matrix = 2::nat,
                pstructure = ''Si*'', forces = 1::nat\<rparr>])) ''perturbed_forces.json'',
                   Dumpfn (StructureData sd) ''structure_data.json''], Inr ())"
      "sd_supercell_matrix sd = supercell_matrix \<lparr>parent_structure = ''Si'', supercell_matrix = 2::nat,
                pstructure = ''Si*'', forces = 1::nat\<rparr>"
      "\<forall>i. i < length (spec_get (calc_locs ?spec)) \<and>
                str_in ''optimiz'' (name (spec_get (calc_locs ?spec) ! i)) \<and>
                (\<forall>j. i < j \<and> j < length (spec_get (calc_locs ?spec))
                     \<longrightarrow> \<not> str_in ''optimiz'' (name (spec_get (calc_locs ?spec) ! j)))
              \<longrightarrow> sd_structure sd = (\<lambda>p. ''relaxed at '' @ p) (path (spec_get (calc_locs ?spec) ! i))"
    by blast
  from sd(3) m have "sd_structure sd = (\<lambda>p. ''relaxed at '' @ p) (path (spec_get (calc_locs ?spec) ! 1))"
    by blast
  then have "sd_structure sd = ''relaxed at /b''" unfolding locs by simp
  with sd(1,2) show ?thesis by (intro exI [of _ sd]) simp
qed

subsection \<open>The conductivity table\<close>

lemma chunks_Nil: "chunks n [] = []"
  by (simp add: chunks.simps)

lemma chunks_append:
  assumes "length xs = n" and "0 < n"
  shows "chunks n (xs @ ys) = xs # chunks n ys"
proof -
  from assms have "xs \<noteq> []" by auto
  with assms show ?thesis by (subst chunks.simps) simp
qed

lemma chunks_concat:
  assumes "0 < n" and "\<forall>xs \<in> set xss. length xs = n"
  shows "chunks n (concat xss) = xss"
  using assms(2)
proof (induction xss)
  case Nil
  show ?case by (simp add: chunks_Nil)
next
  case (Cons xs xss)
  then show ?case using assms(1) by (simp add: chunks_append)
qed

lemma length_concat_const:
  assumes "\<forall>xs \<in> set xss. length xs = n"
  shows "length (concat xss) = n * length xss"
  using assms by (induction xss) simp_all

text \<open>The slice \<open>1:10\<close> of a row with at least ten columns.\<close>

lemma slice_1_10:
  assumes "10 \<le> length row"
  shows "take 9 (drop (Suc 0) row)
           = [row ! Suc 0, row ! 2, row ! 3, row ! 4, row ! 5, row ! 6, row ! 7, row ! 8, row ! 9]"
proof (rule nth_equalityI)
  show "length (take 9 (drop (Suc 0) row))
          = length [row ! Suc 0, row ! 2, row ! 3, row ! 4, row ! 5, row ! 6, row ! 7, row ! 8, row ! 9]"
    using assms by simp
next
  fix i assume "i < length (take 9 (drop (Suc 0) row))"
  then have "i < 9" by simp
  then consider "i = 0" | "i = 1" | "i = 2" | "i = 3" | "i = 4" | "i = 5" | "i = 6" | "i = 7"
    | "i = 8" by linarith
  then show "take 9 (drop (Suc 0) row) ! i
               = [row ! Suc 0, row ! 2, row ! 3, row ! 4, row ! 5, row ! 6, row ! 7, row ! 8, row ! 9] ! i"
    using assms by cases (simp_all add: eval_nat_numeral)
qed

lemma chunks_3_of_9:
  "chunks 3 [a1, a2, a3, a4, a5, a6, a7, a8, a9] = [[a1, a2, a3], [a4, a5, a6], [a7, a8, a9]]"
  by (simp add: chunks.simps)

lemma parse_rows:
  assumes "\<forall>row \<in> set rows. 10 \<le> length row"
  shows "parse_bte_data (Arr2 rows)
         = Inr (map (\<lambda>row. row ! 0) rows,
                map (\<lambda>row. [[row ! 1, row ! 2, row ! 3], [row ! 4, row ! 5, row ! 6],
                             [row ! 7, row ! 8, row ! 9]]) rows)"
proof -
  let ?sl = "map (\<lambda>row. take 9 (drop 1 row)) rows"
  have ne: "[] \<notin> set rows" using assms by auto
  have len9: "\<forall>xs \<in> set ?sl. length xs = 9" using assms by auto
  have "length (concat ?sl) = 9 * length ?sl" using len9 by (rule length_concat_const)
  then have mod9: "length (concat ?sl) mod 9 = 0" by simp
  have "chunks 9 (concat ?sl) = ?sl" using len9 by (intro chunks_concat) simp_all
  then have "reshape_m1_3_3 (concat ?sl) = Inr (map (chunks 3) ?sl)"
    using mod9 by (simp add: reshape_m1_3_3_def)
  also have "map (chunks 3) ?sl
               = map (\<lambda>row. [[row ! 1, row ! 2, row ! 3], [row ! 4, row ! 5, row ! 6],
                              [row ! 7, row ! 8, row ! 9]]) rows"
    using assms by (simp add: slice_1_10 chunks_3_of_9)
  finally show ?thesis using ne by (simp add: parse_bte_data_def)
qed

lemma parse_single_row: "parse_bte_data (Arr1 row) = parse_bte_data (Arr2 [row])"
  by (simp add: parse_bte_data_def)

text \<open>
  C8. A one-dimensional table parses as the two-dimensional table with that single row.
  A one-dimensional table of ten values parses to one temperature, its first value,
  and one 3 by 3 tensor made of the nine values after it, row by row. A two-dimensional
  table whose rows have at least ten columns parses to one temperature per row, from
  column 0, and one 3 by 3 tensor per row, from columns 1 to 9.
\<close>

theorem parse_bte_data_tensors:
  "parse_bte_data (Arr1 row) = parse_bte_data (Arr2 [row]) \<and>
   (length row = 10 \<longrightarrow>
      parse_bte_data (Arr1 row)
        = Inr ([row ! 0], [[[row ! 1, row ! 2, row ! 3], [row ! 4, row ! 5, row ! 6],
                            [row ! 7, row ! 8, row ! 9]]])) \<and>
   ((\<forall>r \<in> set rows. 10 \<le> length r) \<longrightarrow>
      parse_bte_data (Arr2 rows)
        = Inr (map (\<lambda>r. r ! 0) rows,
               map (\<lambda>r. [[r ! 1, r ! 2, r ! 3], [r ! 4, r ! 5, r ! 6], [r ! 7, r ! 8, r ! 9]]) rows))"
proof (intro conjI impI)
  show "parse_bte_data (Arr1 row) = parse_bte_data (Arr2 [row])"
    by (rule parse_single_row)
next
  assume "length row = 10"
  then have "\<forall>r \<in> set [row]. 10 \<le> length r" by simp
  from parse_rows [OF this] show "parse_bte_data (Arr1 row)
        = Inr ([row ! 0], [[[row ! 1, row ! 2, row ! 3], [row ! 4, row ! 5, row ! 6],
                            [row ! 7, row ! 8, row ! 9]]])"
    by (simp add: parse_single_row)
next
  assume "\<forall>r \<in> set rows. 10 \<le> length r"
  then show "parse_bte_data (Arr2 rows)
        = Inr (map (\<lambda>r. r ! 0) rows,
               map (\<lambda>r. [[r ! 1, r ! 2, r ! 3], [r ! 4, r ! 5, r ! 6], [r ! 7, r ! 8, r ! 9]]) rows)"
    by (rule parse_rows)
qed

theorem parse_bte_data_tensors_witness:
  "parse_bte_data (Arr1 [300, 11, 12, 13, 21, 22, 23, 31, 32, 33 :: int])
     = Inr ([300], [[[11, 12, 13], [21, 22, 23], [31, 32, 33]]]) \<and>
   parse_bte_data (Arr2 [[300, 11, 12, 13, 21, 22, 23, 31, 32, 33],
                         [400, 41, 42, 43, 51, 52, 53, 61, 62, 63 :: int]])
     = Inr ([300, 400], [[[11, 12, 13], [21, 22, 23], [31, 32, 33]],
                         [[41, 42, 43], [51, 52, 53], [61, 62, 63]]])"
proof -
  have h1: "length [300, 11, 12, 13, 21, 22, 23, 31, 32, 33 :: int] = 10" by simp
  have h2: "\<forall>r \<in> set [[300, 11, 12, 13, 21, 22, 23, 31, 32, 33],
                         [400, 41, 42, 43, 51, 52, 53, 61, 62, 63 :: int]]. 10 \<le> length r"
    by simp
  from parse_bte_data_tensors
    [of "[300, 11, 12, 13, 21, 22, 23, 31, 32, 33 :: int]"
        "[[300, 11, 12, 13, 21, 22, 23, 31, 32, 33],
          [400, 41, 42, 43, 51, 52, 53, 61, 62, 63 :: int]]", THEN conjunct2] h1 h2
  show ?thesis by simp
qed

subsection \<open>Allocation of fitting ids\<close>

lemma get_fc_fitting_id_first:
  assumes "counter ''fc_fitting_id'' = None"
  shows "get_fc_fitting_id counter = (counter(''fc_fitting_id'' \<mapsto> 1), Inr 1)"
  using assms by (simp add: get_fc_fitting_id_def find_one_and_update_def insert_doc_def)

lemma get_fc_fitting_id_next:
  assumes "counter ''fc_fitting_id'' = Some c"
  shows "get_fc_fitting_id counter = (counter(''fc_fitting_id'' \<mapsto> c + 1), Inr (c + 1))"
  using assms by (simp add: get_fc_fitting_id_def find_one_and_update_def)

lemma upt_1_Suc_Suc: "[1..<Suc (Suc n)] = 1 # map Suc [1..<Suc n]"
  by (simp add: map_Suc_upt upt_conv_Cons del: upt_Suc)

text \<open>Allocations one after the other from a counter at \<open>c\<close> return \<open>c + 1, c + 2, ...\<close>\<close>

lemma allocations_from:
  assumes "counter ''fc_fitting_id'' = Some c"
  shows "allocations n counter
           = (map (\<lambda>k. Inr (c + int k)) [1..<Suc n],
              counter(''fc_fitting_id'' \<mapsto> c + int n))"
  using assms
proof (induction n arbitrary: counter c)
  case 0
  then have "counter(''fc_fitting_id'' \<mapsto> c) = counter" by (simp add: map_upd_triv)
  then show ?case by simp
next
  case (Suc n)
  let ?counter' = "counter(''fc_fitting_id'' \<mapsto> c + 1)"
  have step: "get_fc_fitting_id counter = (?counter', Inr (c + 1))"
    using Suc.prems by (rule get_fc_fitting_id_next)
  have "?counter' ''fc_fitting_id'' = Some (c + 1)" by simp
  from Suc.IH [of ?counter' "c + 1"] this
  have rest: "allocations n ?counter'
                = (map (\<lambda>k. Inr (c + 1 + int k)) [1..<Suc n],
                   ?counter'(''fc_fitting_id'' \<mapsto> c + 1 + int n))"
    by blast
  have "map (\<lambda>k. Inr (c + int k) :: db_error + int) [1..<Suc (Suc n)]
          = Inr (c + 1) # map (\<lambda>k. Inr (c + 1 + int k)) [1..<Suc n]"
    by (subst upt_1_Suc_Suc) (simp add: comp_def add.assoc add.commute del: upt_Suc)
  then show ?case using step rest by (auto simp add: add.assoc fun_eq_iff simp del: upt_Suc)
qed

lemma allocations_from_empty:
  assumes "counter ''fc_fitting_id'' = None"
  shows "fst (allocations n counter) = map (\<lambda>k. Inr (int k)) [1..<Suc n]"
proof (cases n)
  case 0
  then show ?thesis by simp
next
  case (Suc m)
  let ?counter' = "counter(''fc_fitting_id'' \<mapsto> 1)"
  have step: "get_fc_fitting_id counter = (?counter', Inr 1)"
    using assms by (rule get_fc_fitting_id_first)
  have "?counter' ''fc_fitting_id'' = Some 1" by simp
  from allocations_from [of ?counter' 1 m] this
  have rest: "fst (allocations m ?counter') = map (\<lambda>k. Inr (1 + int k)) [1..<Suc m]"
    by simp
  have "map (\<lambda>k. Inr (int k) :: db_error + int) [1..<Suc (Suc m)]
          = Inr 1 # map (\<lambda>k. Inr (1 + int k)) [1..<Suc m]"
    by (subst upt_1_Suc_Suc) (simp add: comp_def add.commute del: upt_Suc)
  then show ?thesis using Suc step rest by (simp add: case_prod_beta del: upt_Suc)
qed

lemma caller_step_invariant:
  assumes "ids_bounded (counter, callers)" and "ids_distinct (counter, callers)"
    and "p < length callers" and "caller_step counter (callers ! p) = (counter', c')"
  shows "ids_bounded (counter', callers[p := c']) \<and> ids_distinct (counter', callers[p := c'])"
proof (cases "callers ! p")
  case Start
  show ?thesis
  proof (cases "counter ''fc_fitting_id''")
    case None
    with Start assms(4) have eq: "counter' = counter" "c' = Found_none"
      by (simp_all add: find_one_and_update_def)
    show ?thesis using assms(1,2,3) Start unfolding eq ids_bounded_def ids_distinct_def
      by (auto simp: nth_list_update split: if_splits)
  next
    case (Some c)
    with Start assms(4) have eq: "counter' = counter(''fc_fitting_id'' \<mapsto> c + 1)"
        "c' = Returned (c + 1)"
      by (simp_all add: find_one_and_update_def)
    have old: "i \<le> c" if "q < length callers" "callers ! q = Returned i" for q i
      using assms(1) that Some unfolding ids_bounded_def by fastforce
    have b: "ids_bounded (counter', callers[p := c'])"
      unfolding eq ids_bounded_def using old assms(3)
      by (auto simp: nth_list_update split: if_splits) force
    have d: "ids_distinct (counter', callers[p := c'])"
      unfolding eq ids_distinct_def using old assms(2,3)
      by (auto simp: nth_list_update ids_distinct_def split: if_splits) force+
    from b d show ?thesis ..
  qed
next
  case Found_none
  show ?thesis
  proof (cases "counter ''fc_fitting_id''")
    case None
    with Found_none assms(4) have eq: "counter' = counter(''fc_fitting_id'' \<mapsto> 1)"
        "c' = Returned 1"
      by (simp_all add: insert_doc_def)
    have none: "callers ! q \<noteq> Returned i" if "q < length callers" for q i
      using assms(1) that None unfolding ids_bounded_def by fastforce
    show ?thesis unfolding eq ids_bounded_def ids_distinct_def using none assms(3)
      by (auto simp: nth_list_update split: if_splits)
  next
    case (Some c)
    with Found_none assms(4) have eq: "counter' = counter" "c' = Raised DuplicateKeyError"
      by (simp_all add: insert_doc_def)
    show ?thesis using assms(1,2,3) Found_none unfolding eq ids_bounded_def ids_distinct_def
      by (auto simp: nth_list_update split: if_splits)
  qed
next
  case (Returned i)
  with assms(4) have "counter' = counter" "callers[p := c'] = callers" by auto
  with assms(1,2) show ?thesis by simp
next
  case (Raised e)
  with assms(4) have "counter' = counter" "callers[p := c'] = callers" by auto
  with assms(1,2) show ?thesis by simp
qed

lemma run_schedule_invariant:
  assumes "ids_bounded s" and "ids_distinct s"
  shows "ids_bounded (run_schedule sched s) \<and> ids_distinct (run_schedule sched s)"
  using assms
proof (induction sched arbitrary: s)
  case Nil
  then show ?case by simp
next
  case (Cons p sched)
  obtain counter callers where s: "s = (counter, callers)" by (cases s)
  show ?case
  proof (cases "p < length callers")
    case True
    obtain counter' c' where st: "caller_step counter (callers ! p) = (counter', c')"
      by (cases "caller_step counter (callers ! p)")
    from caller_step_invariant [OF Cons.prems [unfolded s] True st]
    have "ids_bounded (counter', callers[p := c'])" "ids_distinct (counter', callers[p := c'])"
      by simp_all
    from Cons.IH [OF this] show ?thesis using s True st by simp
  next
    case False
    with Cons s show ?thesis by simp
  qed
qed

lemma run_schedule_length: "length (snd (run_schedule sched s)) = length (snd s)"
proof (induction sched arbitrary: s)
  case Nil
  show ?case by simp
next
  case (Cons p sched)
  obtain counter callers where s: "s = (counter, callers)" by (cases s)
  show ?case using Cons.IH s by (simp split: prod.splits)
qed

text \<open>
  C7. The first allocation on a collection without the counter document returns 1 and
  creates the document with \<open>c = 1\<close>; an allocation on a counter at \<open>c\<close> returns \<open>c + 1\<close>
  and is the single operation \<open>find_one_and_update\<close> (one step of a caller, from its start
  to its return); \<open>n\<close> allocations in a row from an empty collection return
  \<open>1, 2, ..., n\<close>; and however the database operations of \<open>n\<close> concurrent callers
  interleave, no two callers return the same id.
\<close>

theorem fc_fitting_id_allocation:
  "(counter ''fc_fitting_id'' = None \<longrightarrow>
      get_fc_fitting_id counter = (counter(''fc_fitting_id'' \<mapsto> 1), Inr 1) \<and>
      fst (allocations n counter) = map (\<lambda>k. Inr (int k)) [1..<Suc n]) \<and>
   (counter ''fc_fitting_id'' = Some c \<longrightarrow>
      get_fc_fitting_id counter = (counter(''fc_fitting_id'' \<mapsto> c + 1), Inr (c + 1)) \<and>
      caller_step counter Start = (counter(''fc_fitting_id'' \<mapsto> c + 1), Returned (c + 1)) \<and>
      find_one_and_update counter ''fc_fitting_id''
        = (Some (c + 1), counter(''fc_fitting_id'' \<mapsto> c + 1))) \<and>
   (\<forall>p q i j. p < n \<and> q < n \<and> p \<noteq> q \<and>
        snd (run_schedule sched (counter, replicate n Start)) ! p = Returned i \<and>
        snd (run_schedule sched (counter, replicate n Start)) ! q = Returned j
      \<longrightarrow> i \<noteq> j)"
proof (intro conjI impI allI)
  assume "counter ''fc_fitting_id'' = None"
  then show "get_fc_fitting_id counter = (counter(''fc_fitting_id'' \<mapsto> 1), Inr 1)"
    by (rule get_fc_fitting_id_first)
next
  assume "counter ''fc_fitting_id'' = None"
  then show "fst (allocations n counter) = map (\<lambda>k. Inr (int k)) [1..<Suc n]"
    by (rule allocations_from_empty)
next
  assume "counter ''fc_fitting_id'' = Some c"
  then show "get_fc_fitting_id counter = (counter(''fc_fitting_id'' \<mapsto> c + 1), Inr (c + 1))"
    by (rule get_fc_fitting_id_next)
next
  assume "counter ''fc_fitting_id'' = Some c"
  then show "caller_step counter Start = (counter(''fc_fitting_id'' \<mapsto> c + 1), Returned (c + 1))"
    by (simp add: find_one_and_update_def)
next
  assume "counter ''fc_fitting_id'' = Some c"
  then show "find_one_and_update counter ''fc_fitting_id''
        = (Some (c + 1), counter(''fc_fitting_id'' \<mapsto> c + 1))"
    by (simp add: find_one_and_update_def)
next
  fix p q i j
  let ?s = "run_schedule sched (counter, replicate n Start)"
  assume a: "p < n \<and> q < n \<and> p \<noteq> q \<and> snd ?s ! p = Returned i \<and> snd ?s ! q = Returned j"
  have "ids_bounded (counter, replicate n Start)" "ids_distinct (counter, replicate n Start)"
    by (auto simp add: ids_bounded_def ids_distinct_def)
  then have "ids_distinct ?s" using run_schedule_invariant by blast
  moreover have len: "length (snd ?s) = n" by (simp add: run_schedule_length)
  ultimately have "\<forall>p q i j. p < n \<and> q < n \<and> p \<noteq> q \<and>
        snd ?s ! p = Returned i \<and> snd ?s ! q = Returned j \<longrightarrow> i \<noteq> j"
    unfolding ids_distinct_def by simp
  with a show "i \<noteq> j" by blast
qed

theorem fc_fitting_id_allocation_witness:
  "get_fc_fitting_id Map.empty = ([''fc_fitting_id'' \<mapsto> 1], Inr 1) \<and>
   fst (allocations 3 Map.empty) = [Inr 1, Inr 2, Inr 3] \<and>
   get_fc_fitting_id [''fc_fitting_id'' \<mapsto> 5] = ([''fc_fitting_id'' \<mapsto> 6], Inr 6) \<and>
   snd (run_schedule [0, 0, 1] (Map.empty, replicate 2 Start)) ! 0 = Returned 1 \<and>
   snd (run_schedule [0, 0, 1] (Map.empty, replicate 2 Start)) ! 1 = Returned 2 \<and>
   (1::int) \<noteq> 2"
proof -
  have e: "(Map.empty :: collection) ''fc_fitting_id'' = None" by simp
  have f: "[''fc_fitting_id'' \<mapsto> 5::int] ''fc_fitting_id'' = Some 5" by simp
  have r: "(0::nat) < 2 \<and> (1::nat) < 2 \<and> (0::nat) \<noteq> 1 \<and>
      snd (run_schedule [0, 0, 1] (Map.empty, replicate 2 Start)) ! 0 = Returned 1 \<and>
      snd (run_schedule [0, 0, 1] (Map.empty, replicate 2 Start)) ! 1 = Returned 2"
    by (simp add: find_one_and_update_def insert_doc_def eval_nat_numeral)
  have u: "[1..<Suc 3] = [1, 2, 3]" by (simp add: upt_rec)
  from fc_fitting_id_allocation [of Map.empty 3 0 "[0, 0, 1]"] e
  have a: "get_fc_fitting_id Map.empty = ([''fc_fitting_id'' \<mapsto> 1], Inr 1)"
    and b: "fst (allocations 3 Map.empty) = map (\<lambda>k. Inr (int k)) [1..<Suc 3]"
    by simp_all
  from fc_fitting_id_allocation [of "[''fc_fitting_id'' \<mapsto> 5]" 0 5 "[]"] f
  have c: "get_fc_fitting_id [''fc_fitting_id'' \<mapsto> 5] = ([''fc_fitting_id'' \<mapsto> 6], Inr 6)"
    by simp
  from fc_fitting_id_allocation [of Map.empty 2 0 "[0, 0, 1]"] r
  have d: "(1::int) \<noteq> 2" by blast
  from a b c d r u show ?thesis by simp
qed

end
